theory Spec2Isabelle
  imports Main
begin

section \<open>JavaScript values used by the routes\<close>

text \<open>
  Request bodies are JSON objects. A property that holds a string is modelled as
  \<open>Some s\<close>, a property that is missing (\<open>undefined\<close> after destructuring) as
  \<open>None\<close>. Strings are lists of characters with code points below 256.
\<close>

definition truthy :: "string option \<Rightarrow> bool" where
  \<comment> \<open>JavaScript truthiness of a string-or-undefined value: \<open>!v\<close> is its negation.\<close>
  "truthy v = (case v of None \<Rightarrow> False | Some s \<Rightarrow> s \<noteq> [])"

definition is_ws :: "char \<Rightarrow> bool" where
  \<comment> \<open>The white space and line terminators that \<open>String.prototype.trim\<close> strips,
      among the code points below 256: TAB, LF, VT, FF, CR, SP, NBSP.\<close>
  "is_ws c = (c \<in> set [CHR 0x09, CHR 0x0A, CHR 0x0B, CHR 0x0C, CHR 0x0D, CHR 0x20, CHR 0xA0])"

definition trim :: "string \<Rightarrow> string" where
  "trim s = rev (dropWhile is_ws (rev (dropWhile is_ws s)))"

definition startsWith :: "string \<Rightarrow> string \<Rightarrow> bool" where
  "startsWith s p = (take (length p) s = p)"

fun split_on :: "char \<Rightarrow> string \<Rightarrow> string list" where
  \<comment> \<open>\<open>s.split(c)\<close> for a one-character separator; \<open>''''.split(c)\<close> is \<open>['''']\<close>.\<close>
  "split_on c [] = [[]]"
| "split_on c (x # xs) =
     (if x = c then [] # split_on c xs
      else (case split_on c xs of
              w # ws \<Rightarrow> (x # w) # ws
            | [] \<Rightarrow> [[x]]))"

section \<open>HTTP responses\<close>

datatype 'd payload =
    Text string                \<comment> \<open>\<open>res.send(s)\<close>\<close>
  | MsgObj string              \<comment> \<open>\<open>{ msg: s }\<close>\<close>
  | MessageObj string          \<comment> \<open>\<open>{ message: s }\<close>\<close>
  | ErrorObj string            \<comment> \<open>\<open>{ error: s }\<close>\<close>
  | ErrorsObj "string list"    \<comment> \<open>\<open>{ errors: [{ msg: s }, ...] }\<close>\<close>
  | AuthFail string            \<comment> \<open>\<open>{ success: false, message: s }\<close>\<close>
  | ServerFail string          \<comment> \<open>\<open>{ message: s, error: error.message }\<close>, the detail left out\<close>
  | Details string "(string \<times> string) list"  \<comment> \<open>\<open>{ error: s, details: {...} }\<close>\<close>
  | DuplicateKey string        \<comment> \<open>\<open>{ error: 'Duplicate key error', message, field }\<close>\<close>
  | Echo string string         \<comment> \<open>\<open>{ success: true, message, template: { subject, content } }\<close>\<close>
  | Doc 'd
  | Docs "'d list"

record 'd response =
  status :: nat
  payload :: "'d payload"

section \<open>The document store\<close>

text \<open>
  Collections are association lists from document ids to documents, in insertion order.
  The routes receive ids as strings (\<open>req.params.id\<close>, \<open>req.body.categoryId\<close>); the
  store casts a string to an ObjectId before it queries, and a query whose cast fails is
  rejected (the subcategory routes test \<open>err.kind === 'ObjectId'\<close> for this error).
\<close>

type_synonym oid = string
type_synonym 'd collection = "(oid \<times> 'd) list"

datatype store_error = CastError | ValidationError | DuplicateKeyError | ReferenceError

definition is_hex :: "char \<Rightarrow> bool" where
  "is_hex c = (c \<in> set ''0123456789abcdefABCDEF'')"

definition lower_hex :: "char \<Rightarrow> char" where
  "lower_hex c =
     (case map_of [(CHR ''A'', CHR ''a''), (CHR ''B'', CHR ''b''), (CHR ''C'', CHR ''c''),
                   (CHR ''D'', CHR ''d''), (CHR ''E'', CHR ''e''), (CHR ''F'', CHR ''f'')] c of
        Some d \<Rightarrow> d
      | None \<Rightarrow> c)"

definition remove_id :: "oid \<Rightarrow> 'd collection \<Rightarrow> 'd collection" where
  "remove_id i c = filter (\<lambda>(j, d). j \<noteq> i) c"

definition replace_id :: "oid \<Rightarrow> 'd \<Rightarrow> 'd collection \<Rightarrow> 'd collection" where
  "replace_id i d' c = map (\<lambda>(j, d). if j = i then (j, d') else (j, d)) c"

subsection \<open>Documents\<close>

text \<open>
  Modelled from the spec: the User model (models/User.js) is not among the sources; the
  routes only use a user's id, and \<open>protect\<close> its \<open>changedPasswordAfter\<close> method.
\<close>

record User =
  user_name :: string
  user_email :: string
  user_role :: string

text \<open>FormCategory schema (timestamps: true).\<close>

record FormCategory =
  cat_name :: string
  cat_description :: "string option"
  cat_isActive :: bool
  cat_createdBy :: oid
  cat_updatedBy :: "oid option"
  cat_createdAt :: nat
  cat_updatedAt :: nat

text \<open>Form schema (explicit createdAt and updatedAt, hooks on save and on findOneAndUpdate).\<close>

record Form =
  form_name :: string
  form_url :: string
  form_createdAt :: nat
  form_updatedAt :: nat

text \<open>MessageTemplate schema (explicit createdAt and updatedAt, a hook on save only).\<close>

record MessageTemplate =
  mt_name :: string
  mt_subject :: string
  mt_content :: string
  mt_type :: string
  mt_createdAt :: nat
  mt_updatedAt :: nat

definition templateTypeEnum :: "string list" where
  "templateTypeEnum = [''ALERT'', ''NOTIFICATION'', ''PROMOTIONAL'']"

text \<open>
  Modelled from the spec: the Customer model (models/Customer.js) is not among the sources.
  Section 3 of the specification gives the fields the routes read.
\<close>

record address =
  line1 :: "string option"
  city :: "string option"
  state :: "string option"

record Customer =
  cust_name :: "string option"
  cust_phone :: "string option"
  cust_email :: "string option"
  cust_address :: "address option"
  cust_serviceCategoryUrl :: "string option"
  cust_createdAt :: nat

text \<open>The body of a customer request, and so the object handed to \<open>new Customer(...)\<close>.\<close>

record customer_body =
  cb_name :: "string option"
  cb_phone :: "string option"
  cb_email :: "string option"
  cb_address :: "address option"
  cb_serviceCategoryUrl :: "string option"

subsection \<open>Collaborators outside the sources\<close>

text \<open>
  What the routes use and the sources do not hold is a parameter of the model:
  \<^item> \<open>jwt.verify\<close> (\<open>None\<close> when it throws, else the decoded \<open>id\<close> and \<open>iat\<close>) and the User
    model's \<open>changedPasswordAfter\<close>, both used by the guard;
  \<^item> the store's regular-expression matcher with option \<open>i\<close>, used by the customer search
    (\<open>None\<close> for a pattern the store rejects);
  \<^item> the two checks of the Customer model, whose schema is not among the sources: its
    validators (the failing paths with their messages, none when the document is valid)
    and its unique indexes (the path of a violated index);
  \<^item> what the store's driver makes of an id string of 12 characters: some driver versions
    read it as the 12 bytes of an ObjectId (\<open>Some\<close> of that id), others refuse it
    (\<open>None\<close>).
\<close>

record env =
  jwt_verify :: "string \<Rightarrow> (string \<times> nat) option"
  changedPasswordAfter :: "User \<Rightarrow> nat \<Rightarrow> bool"
  regex_i :: "string \<Rightarrow> (string \<Rightarrow> bool) option"
  customer_validateSync :: "customer_body \<Rightarrow> (string \<times> string) list"
  customer_duplicate_key :: "Customer collection \<Rightarrow> customer_body \<Rightarrow> string option"
  cast12 :: "string \<Rightarrow> oid option"

subsection \<open>Casting and looking up ids\<close>

definition castObjectId :: "env \<Rightarrow> string \<Rightarrow> oid option" where
  \<comment> \<open>The store's cast of a string to an ObjectId. Every driver takes 24 hexadecimal
      digits (the id, in lower case) and refuses a string that has neither that form nor
      12 characters; a string of 12 characters is the driver's to decide.\<close>
  "castObjectId e s =
     (if length s = 24 \<and> list_all is_hex s then Some (map lower_hex s)
      else if length s = 12 then cast12 e s
      else None)"

definition findById :: "env \<Rightarrow> 'd collection \<Rightarrow> string \<Rightarrow> store_error + (oid \<times> 'd) option" where
  \<comment> \<open>\<open>Model.findById(s)\<close>: \<open>Inl CastError\<close> is the rejected promise, \<open>Inr None\<close> is \<open>null\<close>.\<close>
  "findById e c s =
     (case castObjectId e s of
        None \<Rightarrow> Inl CastError
      | Some i \<Rightarrow> Inr (map_option (Pair i) (map_of c i)))"

section \<open>Field definitions and the validation loop of the subcategory routes\<close>

text \<open>
  A candidate field definition as it arrives in \<open>req.body.fields\<close>
  (routes/forms.js, form-subcategories module).
\<close>

record field =
  field_name :: "string option"
  fieldType :: "string option"
  options :: "string list option"
  required :: "bool option"

definition choiceTypes :: "string list" where
  "choiceTypes = [''select'', ''radio'', ''checkbox'']"

definition options_missing :: "string list option \<Rightarrow> bool" where
  \<comment> \<open>\<open>!field.options || field.options.length === 0\<close>\<close>
  "options_missing os = (case os of None \<Rightarrow> True | Some l \<Rightarrow> l = [])"

definition check_field :: "field \<Rightarrow> 'd response option" where
  \<comment> \<open>The body of the loop at forms.js 201-216 (and 293-308): \<open>Some r\<close> is the
      early \<open>return res.status(400).json(...)\<close>, \<open>None\<close> falls through to the next field.\<close>
  "check_field f =
     (if truthy (field_name f) \<and> truthy (fieldType f) then
        (case fieldType f of
           None \<Rightarrow> None
         | Some t \<Rightarrow>
             if t \<in> set choiceTypes \<and> options_missing (options f)
             then Some \<lparr>status = 400,
                    payload = ErrorsObj [''Options are required for field type: '' @ t]\<rparr>
             else None)
      else Some \<lparr>status = 400,
             payload = ErrorsObj [''Field name and type are required for all fields'']\<rparr>)"

fun validate_fields :: "field list \<Rightarrow> 'd response option" where
  \<comment> \<open>\<open>for (const field of fields) { ... }\<close>\<close>
  "validate_fields [] = None"
| "validate_fields (f # fs) =
     (case check_field f of
        Some r \<Rightarrow> Some r
      | None \<Rightarrow> validate_fields fs)"

text \<open>
  The storage schema's enumeration of field types (FormSubCategory schema, \<open>fields.fieldType.enum\<close>).
\<close>

definition fieldTypeEnum :: "string list" where
  "fieldTypeEnum = [''text'', ''number'', ''date'', ''select'', ''checkbox'', ''radio'', ''textarea'']"

text \<open>
  The acceptance condition in the words of the specification (section 4.1): a name that is
  non-empty after trimming, a type among the seven enumerated values, and options for
  the choice types.
\<close>

definition spec_field_valid :: "field \<Rightarrow> bool" where
  "spec_field_valid f =
     (case (field_name f, fieldType f) of
        (Some n, Some t) \<Rightarrow>
          trim n \<noteq> [] \<and> t \<in> set fieldTypeEnum \<and>
          (if t \<in> set choiceTypes then \<not> options_missing (options f) else True)
      | _ \<Rightarrow> False)"

text \<open>
  The condition the loop really tests: name and type present and non-empty, and options
  for the choice types.
\<close>

definition loop_field_ok :: "field \<Rightarrow> bool" where
  "loop_field_ok f =
     (case (field_name f, fieldType f) of
        (Some n, Some t) \<Rightarrow>
          n \<noteq> [] \<and> t \<noteq> [] \<and>
          (if t \<in> set choiceTypes then \<not> options_missing (options f) else True)
      | _ \<Rightarrow> False)"

section \<open>Stored subcategories and the database\<close>

text \<open>
  FormSubCategory schema (timestamps: true). A stored field is a cast field definition.
  Nothing in the type forces a stored field to pass the schema's validators: whether it
  does depends on the write that stored it.
\<close>

record FormSubCategory =
  sub_name :: string
  sub_categoryId :: oid
  sub_description :: "string option"
  sub_isActive :: bool
  sub_fields :: "field list"
  sub_createdBy :: oid
  sub_updatedBy :: "oid option"
  sub_createdAt :: nat
  sub_updatedAt :: nat

record db =
  users :: "User collection"
  formCategories :: "FormCategory collection"
  formSubCategories :: "FormSubCategory collection"
  forms :: "Form collection"
  customers :: "Customer collection"
  messageTemplates :: "MessageTemplate collection"

section \<open>The access guard (middleware/auth.js)\<close>

record headers =
  authorization :: "string option"   \<comment> \<open>\<open>req.headers.authorization\<close>\<close>
  cookie_token :: "string option"    \<comment> \<open>\<open>req.cookies?.token\<close>\<close>

definition cookie_fallback :: "headers \<Rightarrow> string option" where
  \<comment> \<open>\<open>else if (req.cookies?.token) token = req.cookies.token\<close>\<close>
  "cookie_fallback h = (if truthy (cookie_token h) then cookie_token h else None)"

definition extract_token :: "headers \<Rightarrow> string option" where
  \<comment> \<open>auth.js 10-17; \<open>None\<close> is \<open>undefined\<close>\<close>
  "extract_token h =
     (case authorization h of
        None \<Rightarrow> cookie_fallback h
      | Some a \<Rightarrow>
          if a \<noteq> [] \<and> startsWith a ''Bearer''
          then (case split_on CHR '' '' a of
                  _ # t # _ \<Rightarrow> Some t
                | _ \<Rightarrow> None)
          else cookie_fallback h)"

definition protect :: "env \<Rightarrow> User collection \<Rightarrow> headers \<Rightarrow> 'd response + (oid \<times> User)" where
  \<comment> \<open>\<open>Inl r\<close>: the guard answered with \<open>r\<close>; \<open>Inr (i, user)\<close>: \<open>req.user = user; next()\<close>.
      Every throw inside the inner \<open>try\<close> is answered 401.\<close>
  "protect e us h =
     (case extract_token h of
        None \<Rightarrow>
          Inl \<lparr>status = 401,
               payload = AuthFail ''Not authorized to access this route. No token provided.''\<rparr>
      | Some token \<Rightarrow>
          if token = [] then
            Inl \<lparr>status = 401,
                 payload = AuthFail ''Not authorized to access this route. No token provided.''\<rparr>
          else
            (case jwt_verify e token of
               None \<Rightarrow>
                 Inl \<lparr>status = 401,
                      payload = AuthFail ''Not authorized to access this route. Invalid token.''\<rparr>
             | Some (uid, iat) \<Rightarrow>
                 (case findById e us uid of
                    Inl err \<Rightarrow>
                      Inl \<lparr>status = 401,
                           payload = AuthFail ''Not authorized to access this route. Invalid token.''\<rparr>
                  | Inr None \<Rightarrow>
                      Inl \<lparr>status = 401,
                           payload = AuthFail ''The user belonging to this token no longer exists.''\<rparr>
                  | Inr (Some (i, currentUser)) \<Rightarrow>
                      if changedPasswordAfter e currentUser iat then
                        Inl \<lparr>status = 401,
                             payload = AuthFail ''User recently changed password! Please log in again.''\<rparr>
                      else Inr (i, currentUser))))"


definition guarded ::
  "env \<Rightarrow> headers \<Rightarrow> (oid \<Rightarrow> db \<Rightarrow> 'd response \<times> db) \<Rightarrow> db \<Rightarrow> 'd response \<times> db" where
  \<comment> \<open>A route registered as \<open>router.METHOD(path, protect, handler)\<close>: the handler runs
      only after \<open>next()\<close>, with \<open>req.user.id\<close>.\<close>
  "guarded e h handler st =
     (case protect e (users st) h of
        Inl r \<Rightarrow> (r, st)
      | Inr (uid, u) \<Rightarrow> handler uid st)"

section \<open>Message templates (message-templates router)\<close>

record template_body =
  tb_name :: "string option"
  tb_subject :: "string option"
  tb_content :: "string option"
  tb_type :: "string option"

datatype hook = PreSave | PreFindOneAndUpdate

definition messageTemplate_hooks :: "hook list" where
  \<comment> \<open>MessageTemplate.js 34-38: the schema registers \<open>pre('save')\<close> and nothing else\<close>
  "messageTemplate_hooks = [PreSave]"

definition form_hooks :: "hook list" where
  \<comment> \<open>the Form schema registers \<open>pre('save')\<close> and \<open>pre('findOneAndUpdate')\<close>\<close>
  "form_hooks = [PreSave, PreFindOneAndUpdate]"

definition run_hook :: "hook list \<Rightarrow> hook \<Rightarrow> nat \<Rightarrow> nat \<Rightarrow> nat" where
  \<comment> \<open>The hooks of both schemas set \<open>updatedAt\<close> to the current time. The store runs a
      hook only when the schema registered it for the operation; otherwise \<open>updatedAt\<close>
      keeps its value.\<close>
  "run_hook registered ev now updatedAt = (if ev \<in> set registered then now else updatedAt)"



definition updateData_of :: "template_body \<Rightarrow> template_body" where
  \<comment> \<open>\<open>if (name) updateData.name = name;\<close> and the three lines after it\<close>
  "updateData_of body =
     \<lparr>tb_name = (if truthy (tb_name body) then tb_name body else None),
      tb_subject = (if truthy (tb_subject body) then tb_subject body else None),
      tb_content = (if truthy (tb_content body) then tb_content body else None),
      tb_type = (if truthy (tb_type body) then tb_type body else None)\<rparr>"

definition required_after_trim :: "string option \<Rightarrow> bool" where
  \<comment> \<open>update validator of a required, trimmed string path: only a path in the update is tested\<close>
  "required_after_trim v = (case v of None \<Rightarrow> True | Some s \<Rightarrow> trim s \<noteq> [])"

definition update_validators :: "template_body \<Rightarrow> bool" where
  \<comment> \<open>\<open>runValidators: true\<close> on the paths of the update\<close>
  "update_validators u =
     (required_after_trim (tb_name u) \<and> required_after_trim (tb_subject u) \<and>
      required_after_trim (tb_content u) \<and>
      (case tb_type u of None \<Rightarrow> True | Some t \<Rightarrow> t \<in> set templateTypeEnum))"

definition set_string :: "string option \<Rightarrow> string \<Rightarrow> string" where
  "set_string v old = (case v of None \<Rightarrow> old | Some s \<Rightarrow> s)"

definition apply_template_update :: "template_body \<Rightarrow> MessageTemplate \<Rightarrow> MessageTemplate" where
  \<comment> \<open>The update \<open>$set\<close>s its paths, cast by the schema (the three strings are trimmed).\<close>
  "apply_template_update u t =
     t\<lparr>mt_name := set_string (map_option trim (tb_name u)) (mt_name t),
       mt_subject := set_string (map_option trim (tb_subject u)) (mt_subject t),
       mt_content := set_string (map_option trim (tb_content u)) (mt_content t),
       mt_type := set_string (tb_type u) (mt_type t)\<rparr>"

definition updateTemplate ::
  "env \<Rightarrow> nat \<Rightarrow> string \<Rightarrow> template_body \<Rightarrow> db
     \<Rightarrow> (oid \<times> MessageTemplate) response \<times> db" where
  \<comment> \<open>\<open>router.put('/:id')\<close>:
      \<open>MessageTemplate.findByIdAndUpdate(id, updateData, { new: true, runValidators: true })\<close>.
      The cast of the id and the update validators run before the store is queried.\<close>
  "updateTemplate e now rid body st =
     (let updateData = updateData_of body in
      case castObjectId e rid of
        None \<Rightarrow> (\<lparr>status = 500, payload = ServerFail ''Server error''\<rparr>, st)
      | Some i \<Rightarrow>
          if update_validators updateData then
            (case map_of (messageTemplates st) i of
               None \<Rightarrow>
                 (\<lparr>status = 404, payload = MessageObj ''Message template not found''\<rparr>, st)
             | Some t \<Rightarrow>
                 (let updatedTemplate =
                        (apply_template_update updateData t)
                          \<lparr>mt_updatedAt :=
                             run_hook messageTemplate_hooks PreFindOneAndUpdate now (mt_updatedAt t)\<rparr>
                  in (\<lparr>status = 200, payload = Doc (i, updatedTemplate)\<rparr>,
                      st\<lparr>messageTemplates := replace_id i updatedTemplate (messageTemplates st)\<rparr>)))
          else (\<lparr>status = 500, payload = ServerFail ''Server error''\<rparr>, st))"

definition deleteTemplate :: "env \<Rightarrow> string \<Rightarrow> db \<Rightarrow> (oid \<times> MessageTemplate) response \<times> db" where
  \<comment> \<open>\<open>router.delete('/:id')\<close>\<close>
  "deleteTemplate e rid st =
     (case findById e (messageTemplates st) rid of
        Inl err \<Rightarrow> (\<lparr>status = 500, payload = ServerFail ''Server error''\<rparr>, st)
      | Inr None \<Rightarrow>
          (\<lparr>status = 404, payload = MessageObj ''Message template not found''\<rparr>, st)
      | Inr (Some (i, t)) \<Rightarrow>
          (\<lparr>status = 200, payload = MessageObj ''Message template deleted successfully''\<rparr>,
           st\<lparr>messageTemplates := remove_id i (messageTemplates st)\<rparr>))"

definition sendTest :: "env \<Rightarrow> string \<Rightarrow> db \<Rightarrow> (oid \<times> MessageTemplate) response \<times> db" where
  \<comment> \<open>\<open>router.post('/:id/test')\<close>; the \<open>console.log\<close> is not part of the state\<close>
  "sendTest e rid st =
     (case findById e (messageTemplates st) rid of
        Inl err \<Rightarrow> (\<lparr>status = 500, payload = ServerFail ''Server error''\<rparr>, st)
      | Inr None \<Rightarrow>
          (\<lparr>status = 404, payload = MessageObj ''Message template not found''\<rparr>, st)
      | Inr (Some (i, template)) \<Rightarrow>
          (\<lparr>status = 200, payload = Echo (mt_subject template) (mt_content template)\<rparr>, st))"


definition message_templates_put ::
  "env \<Rightarrow> headers \<Rightarrow> nat \<Rightarrow> string \<Rightarrow> template_body \<Rightarrow> db
     \<Rightarrow> (oid \<times> MessageTemplate) response \<times> db" where
  "message_templates_put e h now rid body st = updateTemplate e now rid body st"

definition message_templates_delete ::
  "env \<Rightarrow> headers \<Rightarrow> string \<Rightarrow> db \<Rightarrow> (oid \<times> MessageTemplate) response \<times> db" where
  "message_templates_delete e h rid st = deleteTemplate e rid st"

section \<open>Forms (routes/forms.js, first module)\<close>



section \<open>Form categories (routes/forms.js, third module)\<close>

text \<open>
  The identifiers the form-categories module binds (forms.js 370-374). The delete handler
  also reads \<open>FormSubCategory\<close>; reading an identifier that no scope binds throws a
  ReferenceError, which the handler's \<open>catch\<close> answers with 500.

  This module and the form-subcategories module register their routes behind \<open>auth\<close>,
  the value of \<open>require('../middleware/auth')\<close>. The sources give that module named
  exports only, so what \<open>auth\<close> does with a request cannot be read from them: the
  handlers below are modelled as they run once \<open>auth\<close> has let the request through, with
  \<open>req.user.id\<close> as the parameter \<open>actorId\<close>, and no statement is made about their
  guard.
\<close>

definition form_categories_module_scope :: "string list" where
  "form_categories_module_scope =
     [''express'', ''router'', ''check'', ''validationResult'', ''auth'', ''FormCategory'']"

definition find_by_categoryId ::
  "env \<Rightarrow> FormSubCategory collection \<Rightarrow> string \<Rightarrow> store_error + (oid \<times> FormSubCategory) list" where
  \<comment> \<open>\<open>FormSubCategory.find({ categoryId: s })\<close>\<close>
  "find_by_categoryId e c s =
     (case castObjectId e s of
        None \<Rightarrow> Inl CastError
      | Some cid \<Rightarrow> Inr (filter (\<lambda>(j, d). sub_categoryId d = cid) c))"

definition deleteCategory :: "env \<Rightarrow> string \<Rightarrow> db \<Rightarrow> (oid \<times> FormCategory) response \<times> db" where
  \<comment> \<open>the handler of \<open>router.delete('/:id', auth, ...)\<close>, forms.js 496-520\<close>
  "deleteCategory e rid st =
     (case findById e (formCategories st) rid of
        Inl err \<Rightarrow> (\<lparr>status = 500, payload = Text ''Server Error''\<rparr>, st)
      | Inr None \<Rightarrow> (\<lparr>status = 404, payload = MsgObj ''Form category not found''\<rparr>, st)
      | Inr (Some (i, category)) \<Rightarrow>
          if ''FormSubCategory'' \<in> set form_categories_module_scope then
            (case find_by_categoryId e (formSubCategories st) rid of
               Inl err \<Rightarrow> (\<lparr>status = 500, payload = Text ''Server Error''\<rparr>, st)
             | Inr subcategories \<Rightarrow>
                 if length subcategories > 0 then
                   (\<lparr>status = 400, payload = ErrorsObj
                      [''Cannot delete category with existing subcategories. Please delete subcategories first.'']\<rparr>,
                    st)
                 else
                   (\<lparr>status = 200, payload = MsgObj ''Form category removed''\<rparr>,
                    st\<lparr>formCategories := remove_id i (formCategories st)\<rparr>))
          else (\<lparr>status = 500, payload = Text ''Server Error''\<rparr>, st))"

section \<open>Form subcategories (routes/forms.js, second module)\<close>

record subcategory_body =
  sb_name :: "string option"
  sb_categoryId :: "string option"
  sb_description :: "string option"
  sb_fields :: "field list option"
  sb_isActive :: "bool option"

definition validationResult_subcategory :: "subcategory_body \<Rightarrow> string list" where
  \<comment> \<open>the three \<open>check(...)\<close> chains of the POST and PUT routes, as \<open>errors.array()\<close>\<close>
  "validationResult_subcategory body =
     (if truthy (sb_name body) then [] else [''Name is required'']) @
     (if truthy (sb_categoryId body) then [] else [''Category ID is required'']) @
     (case sb_fields body of None \<Rightarrow> [''Fields array is required''] | Some fs \<Rightarrow> [])"

definition cast_field :: "field \<Rightarrow> field" where
  \<comment> \<open>the schema's cast of an embedded field: \<open>trim\<close> on name and options, the defaults of
      \<open>options\<close> and \<open>required\<close>\<close>
  "cast_field f =
     \<lparr>field_name = map_option trim (field_name f),
      fieldType = fieldType f,
      options = Some (case options f of None \<Rightarrow> [] | Some os \<Rightarrow> map trim os),
      required = Some (case required f of None \<Rightarrow> False | Some b \<Rightarrow> b)\<rparr>"

definition field_validators :: "field \<Rightarrow> bool" where
  \<comment> \<open>the validators of an embedded field: \<open>name\<close> required, \<open>fieldType\<close> required and in
      the enumeration\<close>
  "field_validators f =
     (truthy (field_name f) \<and>
      (case fieldType f of None \<Rightarrow> False | Some t \<Rightarrow> t \<noteq> [] \<and> t \<in> set fieldTypeEnum))"

definition subcategory_validators :: "FormSubCategory \<Rightarrow> bool" where
  \<comment> \<open>document validation at \<open>save()\<close>: \<open>name\<close> required, every field valid\<close>
  "subcategory_validators d = (sub_name d \<noteq> [] \<and> list_all field_validators (sub_fields d))"

definition findOne_name_category ::
  "FormSubCategory collection \<Rightarrow> string \<Rightarrow> oid \<Rightarrow> (oid \<times> FormSubCategory) option" where
  \<comment> \<open>\<open>FormSubCategory.findOne({ name, categoryId })\<close>; the query's \<open>name\<close> is cast by the
      schema, which trims it\<close>
  "findOne_name_category c name cid =
     find (\<lambda>(j, d). sub_name d = trim name \<and> sub_categoryId d = cid) c"

definition findOne_other_name_category ::
  "FormSubCategory collection \<Rightarrow> oid \<Rightarrow> string \<Rightarrow> oid \<Rightarrow> (oid \<times> FormSubCategory) option" where
  \<comment> \<open>\<open>FormSubCategory.findOne({ name, categoryId, _id: { $ne: id } })\<close>\<close>
  "findOne_other_name_category c i name cid =
     find (\<lambda>(j, d). j \<noteq> i \<and> sub_name d = trim name \<and> sub_categoryId d = cid) c"

definition unique_index_taken ::
  "FormSubCategory collection \<Rightarrow> oid \<Rightarrow> FormSubCategory \<Rightarrow> bool" where
  \<comment> \<open>the unique compound index on (name, categoryId): another document holds the pair\<close>
  "unique_index_taken c i d =
     list_ex (\<lambda>(j, d'). j \<noteq> i \<and> sub_name d' = sub_name d \<and> sub_categoryId d' = sub_categoryId d) c"

definition save_subcategory ::
  "oid \<Rightarrow> FormSubCategory \<Rightarrow> FormSubCategory collection
     \<Rightarrow> store_error + FormSubCategory collection" where
  \<comment> \<open>\<open>subcategory.save()\<close> of a new document: validation, then the insert\<close>
  "save_subcategory newId d c =
     (if subcategory_validators d then
        (if unique_index_taken c newId d then Inl DuplicateKeyError
         else Inr (c @ [(newId, d)]))
      else Inl ValidationError)"

definition createSubcategory ::
  "env \<Rightarrow> nat \<Rightarrow> oid \<Rightarrow> subcategory_body \<Rightarrow> oid \<Rightarrow> db \<Rightarrow> (oid \<times> FormSubCategory) response \<times> db" where
  \<comment> \<open>the handler of \<open>router.post('/', [auth, [...]], ...)\<close>, forms.js 173-240; the response
      document is given without its populated references\<close>
  "createSubcategory e now newId body actorId st =
     (case validationResult_subcategory body of
        e # es \<Rightarrow> (\<lparr>status = 400, payload = ErrorsObj (e # es)\<rparr>, st)
      | [] \<Rightarrow>
          (case (sb_name body, sb_categoryId body, sb_fields body) of
             (Some name, Some categoryId, Some fields') \<Rightarrow>
               (case findById e (formCategories st) categoryId of
                  Inl err \<Rightarrow> (\<lparr>status = 500, payload = Text ''Server Error''\<rparr>, st)
                | Inr None \<Rightarrow>
                    (\<lparr>status = 404, payload = MsgObj ''Form category not found''\<rparr>, st)
                | Inr (Some (cid, category)) \<Rightarrow>
                    (case findOne_name_category (formSubCategories st) name cid of
                       Some existingSubCategory \<Rightarrow>
                         (\<lparr>status = 400, payload = ErrorsObj
                            [''Form subcategory with this name already exists in the selected category'']\<rparr>,
                          st)
                     | None \<Rightarrow>
                         (case validate_fields fields' of
                            Some r \<Rightarrow> (r, st)
                          | None \<Rightarrow>
                              (let subcategory =
                                     \<lparr>sub_name = trim name,
                                      sub_categoryId = cid,
                                      sub_description =
                                        Some (case sb_description body of
                                                None \<Rightarrow> []
                                              | Some d \<Rightarrow> trim d),
                                      sub_isActive = True,
                                      sub_fields = map cast_field fields',
                                      sub_createdBy = actorId,
                                      sub_updatedBy = None,
                                      sub_createdAt = now,
                                      sub_updatedAt = now\<rparr>
                               in case save_subcategory newId subcategory (formSubCategories st) of
                                    Inl err \<Rightarrow>
                                      (\<lparr>status = 500, payload = Text ''Server Error''\<rparr>, st)
                                  | Inr c' \<Rightarrow>
                                      (\<lparr>status = 200, payload = Doc (newId, subcategory)\<rparr>,
                                       st\<lparr>formSubCategories := c'\<rparr>)))))
           | _ \<Rightarrow> (\<lparr>status = 500, payload = Text ''Server Error''\<rparr>, st)))"

definition updateSubcategory ::
  "env \<Rightarrow> nat \<Rightarrow> string \<Rightarrow> subcategory_body \<Rightarrow> oid \<Rightarrow> db \<Rightarrow> (oid \<times> FormSubCategory) response \<times> db" where
  \<comment> \<open>the handler of \<open>router.put('/:id', [auth, [...]], ...)\<close>, forms.js 256-334. The write is
      \<open>findByIdAndUpdate(id, { $set: subcategoryFields }, { new: true })\<close>: the update is cast,
      \<open>timestamps\<close> refreshes \<open>updatedAt\<close>, and no validator runs because the options do not
      hold \<open>runValidators\<close>.\<close>
  "updateSubcategory e now rid body actorId st =
     (case validationResult_subcategory body of
        e # es \<Rightarrow> (\<lparr>status = 400, payload = ErrorsObj (e # es)\<rparr>, st)
      | [] \<Rightarrow>
          (case (sb_name body, sb_categoryId body, sb_fields body) of
             (Some name, Some categoryId, Some fields') \<Rightarrow>
               (case findById e (formSubCategories st) rid of
                  Inl err \<Rightarrow> (\<lparr>status = 500, payload = Text ''Server Error''\<rparr>, st)
                | Inr None \<Rightarrow>
                    (\<lparr>status = 404, payload = MsgObj ''Form subcategory not found''\<rparr>, st)
                | Inr (Some (i, subcategory)) \<Rightarrow>
                    (case findById e (formCategories st) categoryId of
                       Inl err \<Rightarrow> (\<lparr>status = 500, payload = Text ''Server Error''\<rparr>, st)
                     | Inr None \<Rightarrow>
                         (\<lparr>status = 404, payload = MsgObj ''Form category not found''\<rparr>, st)
                     | Inr (Some (cid, category)) \<Rightarrow>
                         (case (if name = sub_name subcategory \<and>
                                   categoryId = sub_categoryId subcategory
                                then None
                                else findOne_other_name_category (formSubCategories st) i name cid) of
                            Some existingSubCategory \<Rightarrow>
                              (\<lparr>status = 400, payload = ErrorsObj
                                 [''Form subcategory with this name already exists in the selected category'']\<rparr>,
                               st)
                          | None \<Rightarrow>
                              (case validate_fields fields' of
                                 Some r \<Rightarrow> (r, st)
                               | None \<Rightarrow>
                                   (let updated =
                                          subcategory
                                            \<lparr>sub_name := trim name,
                                             sub_categoryId := cid,
                                             sub_fields := map cast_field fields',
                                             sub_updatedBy := Some actorId,
                                             sub_description :=
                                               (case sb_description body of
                                                  None \<Rightarrow> sub_description subcategory
                                                | Some d \<Rightarrow> Some (trim d)),
                                             sub_isActive :=
                                               (case sb_isActive body of
                                                  None \<Rightarrow> sub_isActive subcategory
                                                | Some b \<Rightarrow> b),
                                             sub_updatedAt := now\<rparr>
                                    in if unique_index_taken (formSubCategories st) i updated then
                                         (\<lparr>status = 500, payload = Text ''Server Error''\<rparr>, st)
                                       else
                                         (\<lparr>status = 200, payload = Doc (i, updated)\<rparr>,
                                          st\<lparr>formSubCategories :=
                                               replace_id i updated (formSubCategories st)\<rparr>))))))
           | _ \<Rightarrow> (\<lparr>status = 500, payload = Text ''Server Error''\<rparr>, st)))"

section \<open>Customers (customers router)\<close>

subsection \<open>Normalisation of serviceCategoryUrl\<close>

definition create_serviceCategoryUrl :: "string option \<Rightarrow> string option" where
  \<comment> \<open>lines 71-79 of the create handler: the property of \<open>customerData\<close> afterwards,
      \<open>None\<close> when the object has no such key. The block runs only for a truthy value.\<close>
  "create_serviceCategoryUrl v =
     (case v of
        None \<Rightarrow> None
      | Some s \<Rightarrow>
          if s \<noteq> [] then
            (let t = trim s in
             if t = [] then None
             else if \<not> startsWith t ''http'' then Some (''https://'' @ t)
             else Some t)
          else Some s)"

datatype 'a property = NoKey | Undefined | Value 'a

definition update_serviceCategoryUrl :: "string option \<Rightarrow> string property" where
  \<comment> \<open>lines 155-167 of the update handler: the property of \<open>updateData\<close> afterwards\<close>
  "update_serviceCategoryUrl v =
     (case v of
        None \<Rightarrow> NoKey
      | Some s \<Rightarrow>
          if s \<noteq> [] \<and> trim s \<noteq> [] then
            (let t = trim s in
             if \<not> startsWith t ''http'' then Value (''https://'' @ t)
             else Value t)
          else Undefined)"

subsection \<open>Handlers\<close>

record customer_projection =
  pr_name :: "string option"
  pr_phone :: "string option"
  pr_email :: "string option"
  pr_address :: "address option"

type_synonym customer_doc = "(oid \<times> Customer) + (oid \<times> customer_projection)"

fun insert_by_createdAt_desc ::
  "(oid \<times> Customer) \<Rightarrow> (oid \<times> Customer) list \<Rightarrow> (oid \<times> Customer) list" where
  "insert_by_createdAt_desc x [] = [x]"
| "insert_by_createdAt_desc x (y # ys) =
     (if cust_createdAt (snd y) < cust_createdAt (snd x) then x # y # ys
      else y # insert_by_createdAt_desc x ys)"

definition listCustomers :: "db \<Rightarrow> customer_doc response \<times> db" where
  \<comment> \<open>\<open>router.get('/')\<close>: \<open>Customer.find().sort({ createdAt: -1 })\<close>\<close>
  "listCustomers st =
     (\<lparr>status = 200,
       payload = Docs (map Inl (foldr insert_by_createdAt_desc (customers st) []))\<rparr>, st)"

definition getCustomer :: "env \<Rightarrow> string \<Rightarrow> db \<Rightarrow> customer_doc response \<times> db" where
  \<comment> \<open>\<open>router.get('/:id')\<close>\<close>
  "getCustomer e rid st =
     (case findById e (customers st) rid of
        Inl err \<Rightarrow> (\<lparr>status = 500, payload = ErrorObj ''Server error''\<rparr>, st)
      | Inr None \<Rightarrow> (\<lparr>status = 404, payload = ErrorObj ''Customer not found''\<rparr>, st)
      | Inr (Some customer) \<Rightarrow> (\<lparr>status = 200, payload = Doc (Inl customer)\<rparr>, st))"

definition field_matches :: "(string \<Rightarrow> bool) \<Rightarrow> string option \<Rightarrow> bool" where
  "field_matches m v = (case v of None \<Rightarrow> False | Some s \<Rightarrow> m s)"

definition customer_matches :: "(string \<Rightarrow> bool) \<Rightarrow> Customer \<Rightarrow> bool" where
  \<comment> \<open>the \<open>$or\<close> of the six \<open>$regex\<close> conditions\<close>
  "customer_matches m c =
     (field_matches m (cust_name c) \<or> field_matches m (cust_phone c) \<or>
      field_matches m (cust_email c) \<or>
      (case cust_address c of
         None \<Rightarrow> False
       | Some a \<Rightarrow>
           field_matches m (line1 a) \<or> field_matches m (city a) \<or> field_matches m (state a)))"

definition project_customer :: "(oid \<times> Customer) \<Rightarrow> (oid \<times> customer_projection)" where
  \<comment> \<open>\<open>.select('name phone email address')\<close>\<close>
  "project_customer x =
     (fst x, \<lparr>pr_name = cust_name (snd x), pr_phone = cust_phone (snd x),
              pr_email = cust_email (snd x), pr_address = cust_address (snd x)\<rparr>)"

definition searchCustomers :: "env \<Rightarrow> string option \<Rightarrow> db \<Rightarrow> customer_doc response \<times> db" where
  \<comment> \<open>the handler registered by \<open>router.get('/search', ...)\<close>, lines 33-61\<close>
  "searchCustomers e q st =
     (if truthy q then
        (case q of
           None \<Rightarrow> (\<lparr>status = 400, payload = ErrorObj ''Search query is required''\<rparr>, st)
         | Some pat \<Rightarrow>
             (case regex_i e pat of
                None \<Rightarrow> (\<lparr>status = 500, payload = ErrorObj ''Server error''\<rparr>, st)
              | Some m \<Rightarrow>
                  (\<lparr>status = 200,
                    payload = Docs (map (Inr \<circ> project_customer)
                                (take 10 (filter (\<lambda>x. customer_matches m (snd x)) (customers st))))\<rparr>,
                   st)))
      else (\<lparr>status = 400, payload = ErrorObj ''Search query is required''\<rparr>, st))"

subsection \<open>Routing of GET requests\<close>

text \<open>
  An Express router tries its routes in the order of their registration and runs the
  handler of the first whose path matches; the handlers here never call \<open>next()\<close>. A
  path is the list of its segments, a parameter such as \<open>:id\<close> matches any one segment.
  The customers router registers, for GET, \<open>'/'\<close>, then \<open>'/:id'\<close>, then \<open>'/search'\<close>.
\<close>

datatype seg = Lit string | Param

fun match_path :: "seg list \<Rightarrow> string list \<Rightarrow> string list option" where
  "match_path [] [] = Some []"
| "match_path (Lit s # ps) (x # xs) = (if s = x then match_path ps xs else None)"
| "match_path (Param # ps) (x # xs) = map_option (Cons x) (match_path ps xs)"
| "match_path ps xs = None"

fun first_match :: "(seg list \<times> 'h) list \<Rightarrow> string list \<Rightarrow> ('h \<times> string list) option" where
  "first_match [] path = None"
| "first_match ((pat, h) # rs) path =
     (case match_path pat path of
        Some params \<Rightarrow> Some (h, params)
      | None \<Rightarrow> first_match rs path)"

datatype customers_get_handler = ListCustomers | GetCustomer | SearchCustomers

definition customers_get_routes :: "(seg list \<times> customers_get_handler) list" where
  "customers_get_routes =
     [([], ListCustomers), ([Param], GetCustomer), ([Lit ''search''], SearchCustomers)]"

definition customers_get ::
  "env \<Rightarrow> headers \<Rightarrow> string list \<Rightarrow> string option \<Rightarrow> db \<Rightarrow> customer_doc response \<times> db" where
  \<comment> \<open>a GET request to the customers router: \<open>path\<close> below the mount point, \<open>q\<close> is
      \<open>req.query.q\<close>\<close>
  "customers_get e h path q st =
     (case first_match customers_get_routes path of
        Some (ListCustomers, params) \<Rightarrow> listCustomers st
      | Some (GetCustomer, params) \<Rightarrow>
          (case params of
             rid # rest \<Rightarrow> getCustomer e rid st
           | [] \<Rightarrow> (\<lparr>status = 404, payload = Text ''Not Found''\<rparr>, st))
      | Some (SearchCustomers, params) \<Rightarrow> searchCustomers e q st
      | None \<Rightarrow> (\<lparr>status = 404, payload = Text ''Not Found''\<rparr>, st))"

subsection \<open>Creating a customer\<close>

definition createCustomer ::
  "env \<Rightarrow> nat \<Rightarrow> oid \<Rightarrow> customer_body \<Rightarrow> db \<Rightarrow> customer_doc response \<times> db" where
  \<comment> \<open>\<open>router.post('/')\<close>, lines 64-145; the stored document holds the properties of
      \<open>customerData\<close>\<close>
  "createCustomer e now newId body st =
     (let customerData =
            body\<lparr>cb_serviceCategoryUrl := create_serviceCategoryUrl (cb_serviceCategoryUrl body)\<rparr>
      in case customer_validateSync e customerData of
           d # ds \<Rightarrow> (\<lparr>status = 400, payload = Details ''Validation failed'' (d # ds)\<rparr>, st)
         | [] \<Rightarrow>
             (case customer_duplicate_key e (customers st) customerData of
                Some field' \<Rightarrow> (\<lparr>status = 400, payload = DuplicateKey field'\<rparr>, st)
              | None \<Rightarrow>
                  (let savedCustomer =
                         \<lparr>cust_name = cb_name customerData,
                          cust_phone = cb_phone customerData,
                          cust_email = cb_email customerData,
                          cust_address = cb_address customerData,
                          cust_serviceCategoryUrl = cb_serviceCategoryUrl customerData,
                          cust_createdAt = now\<rparr>
                   in (\<lparr>status = 201, payload = Doc (Inl (newId, savedCustomer))\<rparr>,
                       st\<lparr>customers := customers st @ [(newId, savedCustomer)]\<rparr>))))"

definition customers_post ::
  "env \<Rightarrow> headers \<Rightarrow> nat \<Rightarrow> oid \<Rightarrow> customer_body \<Rightarrow> db \<Rightarrow> customer_doc response \<times> db" where
  \<comment> \<open>registered with no middleware\<close>
  "customers_post e h now newId body st = createCustomer e now newId body st"

section \<open>Example data\<close>

definition cat1 :: oid where "cat1 = ''64b000000000000000000001''"
definition sub1 :: oid where "sub1 = ''64b000000000000000000002''"
definition tpl1 :: oid where "tpl1 = ''64b000000000000000000003''"
definition usr1 :: oid where "usr1 = ''64b000000000000000000004''"
definition new1 :: oid where "new1 = ''64b000000000000000000005''"

definition empty_db :: db where
  "empty_db = \<lparr>users = [], formCategories = [], formSubCategories = [], forms = [],
                customers = [], messageTemplates = []\<rparr>"

definition category1 :: FormCategory where
  "category1 = \<lparr>cat_name = ''Licences'', cat_description = Some [], cat_isActive = True,
                 cat_createdBy = usr1, cat_updatedBy = None,
                 cat_createdAt = 1000, cat_updatedAt = 1000\<rparr>"

definition subcategory1 :: FormSubCategory where
  "subcategory1 = \<lparr>sub_name = ''Renewal'', sub_categoryId = cat1, sub_description = Some [],
                    sub_isActive = True,
                    sub_fields = [\<lparr>field_name = Some ''holder'', fieldType = Some ''text'',
                                   options = Some [], required = Some False\<rparr>],
                    sub_createdBy = usr1, sub_updatedBy = None,
                    sub_createdAt = 1000, sub_updatedAt = 1000\<rparr>"

definition template1 :: MessageTemplate where
  "template1 = \<lparr>mt_name = ''n'', mt_subject = ''old'', mt_content = ''c'', mt_type = ''ALERT'',
                 mt_createdAt = 1000, mt_updatedAt = 1000\<rparr>"

definition db_category :: db where
  \<comment> \<open>one category, no subcategory\<close>
  "db_category = empty_db\<lparr>formCategories := [(cat1, category1)]\<rparr>"

definition db_subcategory :: db where
  \<comment> \<open>one category with one subcategory\<close>
  "db_subcategory = empty_db\<lparr>formCategories := [(cat1, category1)],
                             formSubCategories := [(sub1, subcategory1)]\<rparr>"

definition db_template :: db where
  "db_template = empty_db\<lparr>messageTemplates := [(tpl1, template1)]\<rparr>"

definition cat2 :: oid where "cat2 = ''64b000000000000000000006''"
definition new2 :: oid where "new2 = ''64b000000000000000000007''"

definition db_two_categories :: db where
  "db_two_categories = empty_db\<lparr>formCategories := [(cat1, category1), (cat2, category1)]\<rparr>"

definition body_A :: "oid \<Rightarrow> subcategory_body" where
  \<comment> \<open>a request for a subcategory named A, with no field, in the given category\<close>
  "body_A cid = \<lparr>sb_name = Some ''A'', sb_categoryId = Some cid, sb_description = None,
                 sb_fields = Some [], sb_isActive = None\<rparr>"

definition subcategory_A :: "oid \<Rightarrow> nat \<Rightarrow> FormSubCategory" where
  "subcategory_A cid now =
     \<lparr>sub_name = ''A'', sub_categoryId = cid, sub_description = Some [], sub_isActive = True,
      sub_fields = [], sub_createdBy = usr1, sub_updatedBy = None,
      sub_createdAt = now, sub_updatedAt = now\<rparr>"

definition env0 :: env where
  \<comment> \<open>a verifier that accepts no token, and a Customer model that accepts every document\<close>
  "env0 = \<lparr>jwt_verify = (\<lambda>t. None), changedPasswordAfter = (\<lambda>u iat. False),
            regex_i = (\<lambda>pat. None), customer_validateSync = (\<lambda>d. []),
            customer_duplicate_key = (\<lambda>c d. None), cast12 = (\<lambda>s. None)\<rparr>"


definition no_credential :: headers where
  "no_credential = \<lparr>authorization = None, cookie_token = None\<rparr>"

definition bad_field :: field where
  "bad_field = \<lparr>field_name = Some ''a'', fieldType = Some ''foo'', options = None,
                 required = None\<rparr>"

section \<open>Basic facts\<close>

lemma trim_Nil: "trim [] = []"
  by (simp add: trim_def)

lemma cast_cat1: "castObjectId e cat1 = Some cat1"
  by (simp add: castObjectId_def is_hex_def lower_hex_def cat1_def)

lemma cast_sub1: "castObjectId e sub1 = Some sub1"
  by (simp add: castObjectId_def is_hex_def lower_hex_def sub1_def)

lemma cast_tpl1: "castObjectId e tpl1 = Some tpl1"
  by (simp add: castObjectId_def is_hex_def lower_hex_def tpl1_def)


lemma castObjectId_hex24:
  "length s = 24 \<Longrightarrow> list_all is_hex s \<Longrightarrow> castObjectId e s = Some (map lower_hex s)"
  by (simp add: castObjectId_def)

lemma castObjectId_refused:
  "length s \<noteq> 24 \<Longrightarrow> length s \<noteq> 12 \<Longrightarrow> castObjectId e s = None"
  by (simp add: castObjectId_def)

lemma example_ids: "cat1 \<noteq> sub1" "sub1 \<noteq> cat1" "cat1 \<noteq> []"
  by (simp_all add: cat1_def sub1_def)

lemma find_None_list_ex: "(find P xs = None) = (\<not> list_ex P xs)"
  by (auto simp: find_None_iff list_ex_iff)

section \<open>The validation loop (C4)\<close>

lemma check_field_None_iff: "(check_field f = (None :: 'd response option)) = loop_field_ok f"
  by (auto simp: check_field_def loop_field_ok_def truthy_def split: option.splits)

lemma check_field_status: "check_field f = Some r \<Longrightarrow> status r = 400"
  by (auto simp: check_field_def split: if_splits option.splits)

lemma validate_fields_status: "validate_fields fs = Some r \<Longrightarrow> status r = 400"
  by (induction fs) (auto split: option.splits dest: check_field_status)

lemma validate_fields_None_iff:
  "(validate_fields fs = (None :: 'd response option)) = list_all loop_field_ok fs"
proof (induction fs)
  case Nil
  show ?case by simp
next
  case (Cons f fs)
  have "loop_field_ok f = (check_field f = (None :: 'd response option))"
    by (simp add: check_field_None_iff)
  with Cons show ?case by (auto split: option.splits)
qed

lemma validate_fields_first_violation:
  "validate_fields fs = Some (r :: 'd response) \<Longrightarrow>
     \<exists>pre f post. fs = pre @ f # post \<and> list_all loop_field_ok pre \<and> check_field f = Some r"
proof (induction fs)
  case Nil
  then show ?case by simp
next
  case (Cons g gs)
  show ?case
  proof (cases "check_field g :: 'd response option")
    case None
    with Cons.prems have "validate_fields gs = Some r" by simp
    from Cons.IH [OF this] obtain pre f post
      where "gs = pre @ f # post" "list_all loop_field_ok pre" "check_field f = Some r"
      by blast
    moreover from None have "loop_field_ok g" by (simp add: check_field_None_iff)
    ultimately have "g # gs = (g # pre) @ f # post \<and> list_all loop_field_ok (g # pre) \<and>
        check_field f = Some r" by simp
    then show ?thesis by blast
  next
    case (Some r')
    with Cons.prems have "check_field g = Some r" by simp
    then have "g # gs = [] @ g # gs \<and> list_all loop_field_ok [] \<and> check_field g = Some r"
      by simp
    then show ?thesis by blast
  qed
qed

text \<open>
  C4 says that the validator accepts exactly the sequences in which every field has a
  name that is non-empty after trimming, a fieldType among the seven enumerated values
  and options for the choice types. As stated this fails: the loop accepts a field whose
  type \<open>foo\<close> is outside the enumeration.
\<close>

theorem validate_fields_accepts_foreign_type:
  "validate_fields [bad_field] = (None :: unit response option)
   \<and> \<not> list_all spec_field_valid [bad_field]"
  by (simp add: check_field_def truthy_def choiceTypes_def spec_field_valid_def fieldTypeEnum_def
      bad_field_def)

text \<open>
  C4, amended: for every sequence of candidate field definitions the validation loop
  accepts if and only if every field has a non-empty name, a non-empty fieldType (any
  string), and, when fieldType is select, radio or checkbox, a non-empty options sequence;
  otherwise it returns the response of the first violating field in input order.
\<close>

theorem validate_fields_accepts_iff:
  "(validate_fields fs = (None :: 'd response option)) = list_all loop_field_ok fs
   \<and> (\<forall>r :: 'd response. validate_fields fs = Some r \<longrightarrow>
        (\<exists>pre f post. fs = pre @ f # post \<and> list_all loop_field_ok pre \<and>
           check_field f = Some r))"
  using validate_fields_None_iff validate_fields_first_violation by blast

theorem validate_fields_accepts_iff_witness:
  "validate_fields
     [\<lparr>field_name = Some ''colour'', fieldType = Some ''select'', options = Some [''red''],
        required = None\<rparr>,
      \<lparr>field_name = Some ''size'', fieldType = Some ''radio'', options = Some [],
        required = None\<rparr>]
     = Some (\<lparr>status = 400,
          payload = ErrorsObj [''Options are required for field type: radio'']\<rparr> :: unit response)
   \<and> (\<exists>pre f post.
        [\<lparr>field_name = Some ''colour'', fieldType = Some ''select'', options = Some [''red''],
            required = None\<rparr>,
         \<lparr>field_name = Some ''size'', fieldType = Some ''radio'', options = Some [],
            required = None\<rparr>] = pre @ f # post
        \<and> list_all loop_field_ok pre
        \<and> check_field f = Some (\<lparr>status = 400,
             payload = ErrorsObj [''Options are required for field type: radio'']\<rparr> :: unit response))"
proof -
  let ?fs = "[\<lparr>field_name = Some ''colour'', fieldType = Some ''select'', options = Some [''red''],
        required = None\<rparr>,
      \<lparr>field_name = Some ''size'', fieldType = Some ''radio'', options = Some [],
        required = None\<rparr>]"
  let ?r = "\<lparr>status = 400,
          payload = ErrorsObj [''Options are required for field type: radio'']\<rparr> :: unit response"
  have v: "validate_fields ?fs = Some ?r"
    by (simp add: check_field_def truthy_def choiceTypes_def options_missing_def)
  from validate_fields_accepts_iff [of ?fs] v show ?thesis by blast
qed

section \<open>Deleting a category (C1)\<close>

lemma deleteCategory_absent:
  assumes "castObjectId e rid = Some i" and "map_of (formCategories st) i = None"
  shows "deleteCategory e rid st =
           (\<lparr>status = 404, payload = MsgObj ''Form category not found''\<rparr>, st)"
  using assms by (simp add: deleteCategory_def findById_def)

text \<open>
  C1 says that deleting an existing category answers 400 when a subcategory references it
  and otherwise removes it. The handler never gets that far: the module does not bind
  \<open>FormSubCategory\<close>, so for every category that exists the handler answers 500 and the
  category stays, whether or not a subcategory references it.
\<close>

theorem deleteCategory_existing_category_fails:
  assumes "findById e (formCategories st) rid = Inr (Some (i, c))"
  shows "deleteCategory e rid st = (\<lparr>status = 500, payload = Text ''Server Error''\<rparr>, st)"
  using assms by (simp add: deleteCategory_def form_categories_module_scope_def)

theorem deleteCategory_existing_category_fails_witness:
  "findById env0 (formCategories db_category) cat1 = Inr (Some (cat1, category1))
   \<and> find_by_categoryId env0 (formSubCategories db_category) cat1 = Inr []
   \<and> deleteCategory env0 cat1 db_category =
       (\<lparr>status = 500, payload = Text ''Server Error''\<rparr>, db_category)"
proof -
  have f: "findById env0 (formCategories db_category) cat1 = Inr (Some (cat1, category1))"
    by (simp add: findById_def cast_cat1 db_category_def empty_db_def)
  have g: "find_by_categoryId env0 (formSubCategories db_category) cat1 = Inr []"
    by (simp add: find_by_categoryId_def cast_cat1 db_category_def empty_db_def)
  from f g deleteCategory_existing_category_fails [OF f] show ?thesis by simp
qed

section \<open>The access guard (C2)\<close>




lemma guarded_runs_handler:
  fixes handler :: "oid \<Rightarrow> db \<Rightarrow> 'd response \<times> db"
  assumes "protect e (users st) h = (Inr (uid, u) :: 'd response + (oid \<times> User))"
  shows "guarded e h handler st = handler uid st"
  using assms by (simp add: guarded_def)




section \<open>Customer search (C3)\<close>

text \<open>
  The search handler on its own: it refuses a missing or empty query, and otherwise
  returns at most ten customers, projected, that the store's matcher accepts on one of
  the six fields.
\<close>

lemma searchCustomers_handler:
  "searchCustomers e None st =
     (\<lparr>status = 400, payload = ErrorObj ''Search query is required''\<rparr>, st)"
  "searchCustomers e (Some []) st =
     (\<lparr>status = 400, payload = ErrorObj ''Search query is required''\<rparr>, st)"
  "pat \<noteq> [] \<Longrightarrow> regex_i e pat = Some m \<Longrightarrow>
     searchCustomers e (Some pat) st =
       (\<lparr>status = 200,
         payload = Docs (map (Inr \<circ> project_customer)
                     (take 10 (filter (\<lambda>x. customer_matches m (snd x)) (customers st))))\<rparr>, st)"
  by (simp_all add: searchCustomers_def truthy_def)

text \<open>
  C3 says that \<open>search(q)\<close> answers 400 for an empty query and otherwise returns the
  matching customers. A GET of \<open>/search\<close> never reaches the search handler: the route
  \<open>'/:id'\<close> is registered before \<open>'/search'\<close> and matches first, with \<open>search\<close> as the id, and
  the lookup of that id fails its cast. Every search request, whatever the query, is
  answered 500.
\<close>

theorem customers_search_is_shadowed:
  "customers_get e h [''search''] q st =
     (\<lparr>status = 500, payload = ErrorObj ''Server error''\<rparr>, st)"
  by (simp add: customers_get_def customers_get_routes_def getCustomer_def findById_def
      castObjectId_def)

theorem customers_search_is_shadowed_witness:
  "customers_get env0 no_credential [''search''] (Some ''smith'') empty_db
     = (\<lparr>status = 500, payload = ErrorObj ''Server error''\<rparr>, empty_db)
   \<and> customers_get env0 no_credential [''search''] None empty_db
     = (\<lparr>status = 500, payload = ErrorObj ''Server error''\<rparr>, empty_db)
   \<and> first_match customers_get_routes [''search''] = Some (GetCustomer, [''search''])"
  using customers_search_is_shadowed [of env0 no_credential "Some ''smith''" empty_db]
        customers_search_is_shadowed [of env0 no_credential None empty_db]
  by (simp add: customers_get_routes_def)

section \<open>Updating a message template (C5, C6)\<close>

lemma set_string_trimmed:
  "set_string (map_option trim (if truthy v then v else None)) old =
     (case v of None \<Rightarrow> old | Some s \<Rightarrow> if s = [] then old else trim s)"
  by (simp add: set_string_def truthy_def split: option.splits)

lemma set_string_as_given:
  "set_string (if truthy v then v else None) old =
     (case v of None \<Rightarrow> old | Some s \<Rightarrow> if s = [] then old else s)"
  by (simp add: set_string_def truthy_def split: option.splits)

text \<open>
  C5 says that exactly the fields present in the request are applied, and that a field
  set to the empty string is treated differently from a field that is not provided. As
  stated this fails: a request with \<open>subject\<close> set to the empty string has the same effect
  as a request with no field at all, and the stored subject stays.
\<close>

theorem updateTemplate_empty_string_not_applied:
  "updateTemplate env0 2000 tpl1
      \<lparr>tb_name = None, tb_subject = Some [], tb_content = None, tb_type = None\<rparr> db_template
   = (\<lparr>status = 200, payload = Doc (tpl1, template1)\<rparr>, db_template)
   \<and> updateTemplate env0 2000 tpl1
      \<lparr>tb_name = None, tb_subject = None, tb_content = None, tb_type = None\<rparr> db_template
   = (\<lparr>status = 200, payload = Doc (tpl1, template1)\<rparr>, db_template)
   \<and> mt_subject template1 = ''old''"
  by (simp add: updateTemplate_def cast_tpl1 updateData_of_def truthy_def update_validators_def
      required_after_trim_def apply_template_update_def set_string_def
      run_hook_def messageTemplate_hooks_def replace_id_def db_template_def empty_db_def template1_def
      Let_def)

text \<open>
  C5, amended: for every update with a well-formed id (one that the store's cast takes,
  as it does every string of 24 hexadecimal digits) whose non-empty values pass the
  update validators (name, subject and content non-empty after trimming, type in the
  enumeration): the update answers 404 and changes nothing when no template has the id;
  otherwise exactly the fields that the request gives as non-empty strings are applied
  (name, subject and content trimmed, type as given), and every field that is absent or
  given as the empty string keeps its stored value.
\<close>

theorem updateTemplate_applies_nonempty_fields:
  assumes "castObjectId e rid = Some i" and "update_validators (updateData_of body)"
  shows "(map_of (messageTemplates st) i = None \<longrightarrow>
            updateTemplate e now rid body st =
              (\<lparr>status = 404, payload = MessageObj ''Message template not found''\<rparr>, st))
       \<and> (\<forall>t. map_of (messageTemplates st) i = Some t \<longrightarrow>
            (\<exists>t'. updateTemplate e now rid body st =
                    (\<lparr>status = 200, payload = Doc (i, t')\<rparr>,
                     st\<lparr>messageTemplates := replace_id i t' (messageTemplates st)\<rparr>)
                 \<and> mt_name t' = (case tb_name body of None \<Rightarrow> mt_name t
                                  | Some s \<Rightarrow> if s = [] then mt_name t else trim s)
                 \<and> mt_subject t' = (case tb_subject body of None \<Rightarrow> mt_subject t
                                  | Some s \<Rightarrow> if s = [] then mt_subject t else trim s)
                 \<and> mt_content t' = (case tb_content body of None \<Rightarrow> mt_content t
                                  | Some s \<Rightarrow> if s = [] then mt_content t else trim s)
                 \<and> mt_type t' = (case tb_type body of None \<Rightarrow> mt_type t
                                  | Some s \<Rightarrow> if s = [] then mt_type t else s)
                 \<and> mt_createdAt t' = mt_createdAt t))"
  using assms
  by (simp add: updateTemplate_def Let_def run_hook_def messageTemplate_hooks_def
      apply_template_update_def updateData_of_def set_string_trimmed set_string_as_given)

theorem updateTemplate_applies_nonempty_fields_witness:
  "updateTemplate env0 2000 tpl1
      \<lparr>tb_name = Some ''  Renamed '', tb_subject = None, tb_content = Some [], tb_type = None\<rparr>
      empty_db
   = (\<lparr>status = 404, payload = MessageObj ''Message template not found''\<rparr>, empty_db)
   \<and> (\<exists>t'. updateTemplate env0 2000 tpl1
      \<lparr>tb_name = Some ''  Renamed '', tb_subject = None, tb_content = Some [], tb_type = None\<rparr>
      db_template
        = (\<lparr>status = 200, payload = Doc (tpl1, t')\<rparr>,
           db_template\<lparr>messageTemplates := replace_id tpl1 t' (messageTemplates db_template)\<rparr>)
      \<and> mt_name t' = ''Renamed'' \<and> mt_subject t' = ''old'' \<and> mt_content t' = ''c'')"
proof -
  let ?b = "\<lparr>tb_name = Some ''  Renamed '', tb_subject = None, tb_content = Some [],
             tb_type = None\<rparr>"
  have t: "trim ''  Renamed '' = ''Renamed''" by (simp add: trim_def is_ws_def)
  have v: "update_validators (updateData_of ?b)"
    by (simp add: update_validators_def updateData_of_def truthy_def required_after_trim_def t)
  have a: "map_of (messageTemplates db_template) tpl1 = Some template1"
    by (simp add: db_template_def empty_db_def)
  have b: "map_of (messageTemplates empty_db) tpl1 = None"
    by (simp add: empty_db_def)
  from updateTemplate_applies_nonempty_fields [OF cast_tpl1 v, where e = env0 and st = empty_db and now = 2000] b
  have nf: "updateTemplate env0 2000 tpl1 ?b empty_db
      = (\<lparr>status = 404, payload = MessageObj ''Message template not found''\<rparr>, empty_db)"
    by blast
  from updateTemplate_applies_nonempty_fields [OF cast_tpl1 v, where e = env0 and st = db_template and now = 2000] a
  have "\<exists>t'. updateTemplate env0 2000 tpl1 ?b db_template =
       (\<lparr>status = 200, payload = Doc (tpl1, t')\<rparr>,
        db_template\<lparr>messageTemplates := replace_id tpl1 t' (messageTemplates db_template)\<rparr>)
      \<and> mt_name t' = ''Renamed'' \<and> mt_subject t' = mt_subject template1
      \<and> mt_content t' = mt_content template1"
    by (auto simp: t)
  then have "\<exists>t'. updateTemplate env0 2000 tpl1 ?b db_template =
       (\<lparr>status = 200, payload = Doc (tpl1, t')\<rparr>,
        db_template\<lparr>messageTemplates := replace_id tpl1 t' (messageTemplates db_template)\<rparr>)
      \<and> mt_name t' = ''Renamed'' \<and> mt_subject t' = ''old'' \<and> mt_content t' = ''c''"
    by (simp add: template1_def)
  with nf show ?thesis by blast
qed

lemma form_hooks_refresh: "run_hook form_hooks PreFindOneAndUpdate now old = now"
  by (simp add: run_hook_def form_hooks_def)

lemma messageTemplate_hooks_keep: "run_hook messageTemplate_hooks PreFindOneAndUpdate now old = old"
  by (simp add: run_hook_def messageTemplate_hooks_def)

text \<open>
  C6 says that every successful update refreshes \<open>updatedAt\<close>, and in particular that a
  template update with only a new subject does. The template schema refreshes
  \<open>updatedAt\<close> in a save hook only, and the route updates through a query, which runs no
  save hook: every successful template update leaves \<open>updatedAt\<close> at its stored value,
  whatever the clock says.
\<close>

theorem updateTemplate_keeps_updatedAt:
  assumes "castObjectId e rid = Some i" and "update_validators (updateData_of body)"
    and "map_of (messageTemplates st) i = Some t"
  shows "\<exists>t'. updateTemplate e now rid body st =
                    (\<lparr>status = 200, payload = Doc (i, t')\<rparr>,
                     st\<lparr>messageTemplates := replace_id i t' (messageTemplates st)\<rparr>)
              \<and> mt_updatedAt t' = mt_updatedAt t"
  using assms
  by (simp add: updateTemplate_def Let_def run_hook_def messageTemplate_hooks_def
      apply_template_update_def)

theorem updateTemplate_keeps_updatedAt_witness:
  "updateTemplate env0 2000 tpl1
      \<lparr>tb_name = None, tb_subject = Some ''new'', tb_content = None, tb_type = None\<rparr> db_template
   = (\<lparr>status = 200, payload = Doc (tpl1, template1\<lparr>mt_subject := ''new''\<rparr>)\<rparr>,
      db_template\<lparr>messageTemplates := [(tpl1, template1\<lparr>mt_subject := ''new''\<rparr>)]\<rparr>)
   \<and> mt_updatedAt template1 = 1000
   \<and> mt_updatedAt (template1\<lparr>mt_subject := ''new''\<rparr>) = 1000"
proof -
  let ?b = "\<lparr>tb_name = None, tb_subject = Some ''new'', tb_content = None, tb_type = None\<rparr>"
  have v: "update_validators (updateData_of ?b)"
    by (simp add: update_validators_def updateData_of_def truthy_def required_after_trim_def
        trim_def is_ws_def)
  have a: "map_of (messageTemplates db_template) tpl1 = Some template1"
    by (simp add: db_template_def empty_db_def)
  have e: "updateTemplate env0 2000 tpl1 ?b db_template
      = (\<lparr>status = 200, payload = Doc (tpl1, template1\<lparr>mt_subject := ''new''\<rparr>)\<rparr>,
         db_template\<lparr>messageTemplates := [(tpl1, template1\<lparr>mt_subject := ''new''\<rparr>)]\<rparr>)"
    by (simp add: updateTemplate_def cast_tpl1 updateData_of_def truthy_def update_validators_def
      required_after_trim_def apply_template_update_def set_string_def trim_def is_ws_def
      run_hook_def messageTemplate_hooks_def replace_id_def db_template_def empty_db_def template1_def
      Let_def)
  from updateTemplate_keeps_updatedAt [OF cast_tpl1 v a, where e = env0 and now = 2000]
  obtain t' where r: "updateTemplate env0 2000 tpl1 ?b db_template =
       (\<lparr>status = 200, payload = Doc (tpl1, t')\<rparr>,
        db_template\<lparr>messageTemplates := replace_id tpl1 t' (messageTemplates db_template)\<rparr>)"
    and u: "mt_updatedAt t' = mt_updatedAt template1" by blast
  from r e have "t' = template1\<lparr>mt_subject := ''new''\<rparr>" by simp
  with u have "mt_updatedAt (template1\<lparr>mt_subject := ''new''\<rparr>) = mt_updatedAt template1"
    by simp
  moreover have "mt_updatedAt template1 = 1000" by (simp add: template1_def)
  ultimately show ?thesis using e by simp
qed

section \<open>Normalisation of serviceCategoryUrl (C7)\<close>

lemma create_serviceCategoryUrl_cases:
  "create_serviceCategoryUrl None = None"
  "s \<noteq> [] \<Longrightarrow> trim s = [] \<Longrightarrow> create_serviceCategoryUrl (Some s) = None"
  "trim s \<noteq> [] \<Longrightarrow> \<not> startsWith (trim s) ''http'' \<Longrightarrow>
     create_serviceCategoryUrl (Some s) = Some (''https://'' @ trim s)"
  "trim s \<noteq> [] \<Longrightarrow> startsWith (trim s) ''http'' \<Longrightarrow>
     create_serviceCategoryUrl (Some s) = Some (trim s)"
  by (auto simp: create_serviceCategoryUrl_def Let_def trim_Nil)

lemma update_serviceCategoryUrl_cases:
  "update_serviceCategoryUrl None = NoKey"
  "trim s = [] \<Longrightarrow> update_serviceCategoryUrl (Some s) = Undefined"
  "trim s \<noteq> [] \<Longrightarrow> \<not> startsWith (trim s) ''http'' \<Longrightarrow>
     update_serviceCategoryUrl (Some s) = Value (''https://'' @ trim s)"
  "trim s \<noteq> [] \<Longrightarrow> startsWith (trim s) ''http'' \<Longrightarrow>
     update_serviceCategoryUrl (Some s) = Value (trim s)"
  by (auto simp: update_serviceCategoryUrl_def Let_def trim_Nil)

text \<open>
  C7 says that a create or update whose serviceCategoryUrl is the empty string stores a
  record without that field. On create the normalisation is guarded by the truthiness of
  the value, which the empty string fails: the block is skipped, the key stays in
  \<open>customerData\<close> with the empty string as its value, and a document that the Customer
  model accepts is stored with it.
\<close>

theorem createCustomer_keeps_empty_url:
  assumes "cb_serviceCategoryUrl body = Some []"
    and "customer_validateSync e body = []"
    and "customer_duplicate_key e (customers st) body = None"
  shows "\<exists>c. createCustomer e now newId body st =
              (\<lparr>status = 201, payload = Doc (Inl (newId, c))\<rparr>,
               st\<lparr>customers := customers st @ [(newId, c)]\<rparr>)
            \<and> cust_serviceCategoryUrl c = Some []"
proof -
  have "body\<lparr>cb_serviceCategoryUrl := create_serviceCategoryUrl (cb_serviceCategoryUrl body)\<rparr>
          = body"
    using assms(1) by (simp add: create_serviceCategoryUrl_def)
  then show ?thesis using assms by (simp add: createCustomer_def Let_def)
qed

theorem createCustomer_keeps_empty_url_witness:
  "\<exists>c. createCustomer env0 1000 new1
     \<lparr>cb_name = Some ''Asha'', cb_phone = Some ''5550100'', cb_email = None, cb_address = None,
      cb_serviceCategoryUrl = Some []\<rparr> empty_db
   = (\<lparr>status = 201, payload = Doc (Inl (new1, c))\<rparr>,
      empty_db\<lparr>customers := customers empty_db @ [(new1, c)]\<rparr>)
   \<and> cust_serviceCategoryUrl c = Some []"
proof -
  let ?b = "\<lparr>cb_name = Some ''Asha'', cb_phone = Some ''5550100'', cb_email = None,
             cb_address = None, cb_serviceCategoryUrl = Some []\<rparr>"
  have 1: "cb_serviceCategoryUrl ?b = Some []" by simp
  have 2: "customer_validateSync env0 ?b = []" by (simp add: env0_def)
  have 3: "customer_duplicate_key env0 (customers empty_db) ?b = None" by (simp add: env0_def)
  from createCustomer_keeps_empty_url [OF 1 2 3, of 1000 new1] show ?thesis .
qed

section \<open>Creating a subcategory (C8)\<close>

lemma no_pair_no_index_conflict:
  assumes "\<not> list_ex (\<lambda>(j, d). sub_name d = n \<and> sub_categoryId d = cid) c"
    and "sub_name d0 = n" and "sub_categoryId d0 = cid"
  shows "\<not> unique_index_taken c i d0"
  using assms by (auto simp: unique_index_taken_def list_ex_iff)

lemma createSubcategory_persists_valid:
  assumes "createSubcategory e now newId body actorId st = (r, st')" and "status r = 200"
  shows "\<exists>d. formSubCategories st' = formSubCategories st @ [(newId, d)] \<and>
             subcategory_validators d"
  using assms
  by (auto simp: createSubcategory_def save_subcategory_def Let_def
      split: list.splits option.splits sum.splits if_splits prod.splits
      dest: validate_fields_status)

text \<open>
  The same name in two categories is stored in both; a second subcategory of that name in
  the same category is refused.
\<close>

lemma cast_cat2: "castObjectId e cat2 = Some cat2"
  by (simp add: castObjectId_def is_hex_def lower_hex_def cat2_def)

lemma same_name_in_two_categories:
  "createSubcategory env0 1000 new1 (body_A cat1) usr1 db_two_categories
     = (\<lparr>status = 200, payload = Doc (new1, subcategory_A cat1 1000)\<rparr>,
        db_two_categories\<lparr>formSubCategories := [(new1, subcategory_A cat1 1000)]\<rparr>)"
  "createSubcategory env0 2000 new2 (body_A cat2) usr1
        (db_two_categories\<lparr>formSubCategories := [(new1, subcategory_A cat1 1000)]\<rparr>)
     = (\<lparr>status = 200, payload = Doc (new2, subcategory_A cat2 2000)\<rparr>,
        db_two_categories\<lparr>formSubCategories :=
          [(new1, subcategory_A cat1 1000), (new2, subcategory_A cat2 2000)]\<rparr>)"
  "createSubcategory env0 2000 new2 (body_A cat1) usr1
        (db_two_categories\<lparr>formSubCategories := [(new1, subcategory_A cat1 1000)]\<rparr>)
     = (\<lparr>status = 400, payload = ErrorsObj
          [''Form subcategory with this name already exists in the selected category'']\<rparr>,
        db_two_categories\<lparr>formSubCategories := [(new1, subcategory_A cat1 1000)]\<rparr>)"
  by (simp_all add: createSubcategory_def validationResult_subcategory_def truthy_def body_A_def
      findById_def cast_cat1 cast_cat2 db_two_categories_def empty_db_def
      findOne_name_category_def subcategory_A_def trim_def is_ws_def Let_def
      save_subcategory_def subcategory_validators_def unique_index_taken_def)
    (simp_all add: cat1_def cat2_def)

text \<open>
  C8 says that after the category check, the duplicate check and the field validation the
  record is persisted. As stated this fails: for a category that exists, a name that is
  free and a field list that the validation loop accepts, the request can still end in 500
  with nothing stored, because the schema validates the document at \<open>save()\<close> and rejects
  the field type \<open>foo\<close>.
\<close>

theorem createSubcategory_schema_rejects_after_loop:
  "findById env0 (formCategories db_category) cat1 = Inr (Some (cat1, category1))
   \<and> findOne_name_category (formSubCategories db_category) ''Permit'' cat1 = None
   \<and> validate_fields [bad_field] = (None :: (oid \<times> FormSubCategory) response option)
   \<and> createSubcategory env0 2000 new1
        \<lparr>sb_name = Some ''Permit'', sb_categoryId = Some cat1, sb_description = None,
         sb_fields = Some [bad_field], sb_isActive = None\<rparr> usr1 db_category
      = (\<lparr>status = 500, payload = Text ''Server Error''\<rparr>, db_category)"
  by (simp add: createSubcategory_def validationResult_subcategory_def truthy_def findById_def
      cast_cat1 db_category_def empty_db_def example_ids findOne_name_category_def
      check_field_def bad_field_def choiceTypes_def Let_def save_subcategory_def
      subcategory_validators_def cast_field_def field_validators_def fieldTypeEnum_def)

text \<open>
  C8, amended: for every createSubcategory request with a non-empty name, a well-formed
  categoryId (one that the store's cast takes, as it does every string of 24 hexadecimal
  digits) and a fields array: it answers 404 CategoryNotFound when the categoryId does
  not resolve; else 400 DuplicateName exactly when a subcategory with the same (name after
  trimming, categoryId) pair exists; else the response of the first field that the
  validation loop refuses; else, when the schema's validators accept the document (the name
  is non-empty after trimming, every field has a name that is non-empty after trimming
  and a fieldType among the seven), the record is persisted with createdBy = actorId, and
  when they do not, the answer is 500 and nothing is stored. The checks occur in that
  order.
\<close>

theorem createSubcategory_check_order:
  assumes "sb_name body = Some name" and "name \<noteq> []"
    and "sb_categoryId body = Some categoryId" and "castObjectId e categoryId = Some cid"
    and "sb_fields body = Some fs"
  shows
    "(map_of (formCategories st) cid = None \<longrightarrow>
        createSubcategory e now newId body actorId st =
          (\<lparr>status = 404, payload = MsgObj ''Form category not found''\<rparr>, st))
     \<and> (\<forall>c. map_of (formCategories st) cid = Some c \<longrightarrow>
          (if list_ex (\<lambda>(j, d). sub_name d = trim name \<and> sub_categoryId d = cid)
                (formSubCategories st)
           then createSubcategory e now newId body actorId st =
                  (\<lparr>status = 400, payload = ErrorsObj
                     [''Form subcategory with this name already exists in the selected category'']\<rparr>,
                   st)
           else (case validate_fields fs of
                   Some r \<Rightarrow> createSubcategory e now newId body actorId st = (r, st)
                 | None \<Rightarrow>
                     if trim name \<noteq> [] \<and> list_all (\<lambda>f. field_validators (cast_field f)) fs
                     then (\<exists>d. createSubcategory e now newId body actorId st =
                                 (\<lparr>status = 200, payload = Doc (newId, d)\<rparr>,
                                  st\<lparr>formSubCategories := formSubCategories st @ [(newId, d)]\<rparr>)
                               \<and> sub_createdBy d = actorId \<and> sub_name d = trim name
                               \<and> sub_categoryId d = cid \<and> sub_fields d = map cast_field fs)
                     else createSubcategory e now newId body actorId st =
                            (\<lparr>status = 500, payload = Text ''Server Error''\<rparr>, st))))"
proof -
  have v: "validationResult_subcategory body = []"
    using assms
    by (auto simp: validationResult_subcategory_def truthy_def castObjectId_def split: if_splits)
  show ?thesis
  proof (intro conjI allI impI)
    assume "map_of (formCategories st) cid = None"
    then show "createSubcategory e now newId body actorId st =
          (\<lparr>status = 404, payload = MsgObj ''Form category not found''\<rparr>, st)"
      using assms v by (simp add: createSubcategory_def findById_def)
  next
    fix c assume c: "map_of (formCategories st) cid = Some c"
    let ?P = "\<lambda>(j, d). sub_name d = trim name \<and> sub_categoryId d = cid"
    show "if list_ex ?P (formSubCategories st)
           then createSubcategory e now newId body actorId st =
                  (\<lparr>status = 400, payload = ErrorsObj
                     [''Form subcategory with this name already exists in the selected category'']\<rparr>,
                   st)
           else (case validate_fields fs of
                   Some r \<Rightarrow> createSubcategory e now newId body actorId st = (r, st)
                 | None \<Rightarrow>
                     if trim name \<noteq> [] \<and> list_all (\<lambda>f. field_validators (cast_field f)) fs
                     then (\<exists>d. createSubcategory e now newId body actorId st =
                                 (\<lparr>status = 200, payload = Doc (newId, d)\<rparr>,
                                  st\<lparr>formSubCategories := formSubCategories st @ [(newId, d)]\<rparr>)
                               \<and> sub_createdBy d = actorId \<and> sub_name d = trim name
                               \<and> sub_categoryId d = cid \<and> sub_fields d = map cast_field fs)
                     else createSubcategory e now newId body actorId st =
                            (\<lparr>status = 500, payload = Text ''Server Error''\<rparr>, st))"
    proof (cases "list_ex ?P (formSubCategories st)")
      case True
      then have "findOne_name_category (formSubCategories st) name cid \<noteq> None"
        by (simp add: findOne_name_category_def find_None_list_ex)
      then obtain x where "findOne_name_category (formSubCategories st) name cid = Some x"
        by blast
      with True show ?thesis
        using assms v c by (simp add: createSubcategory_def findById_def)
    next
      case False
      then have f: "findOne_name_category (formSubCategories st) name cid = None"
        by (simp add: findOne_name_category_def find_None_list_ex)
      show ?thesis
      proof (cases "validate_fields fs :: (oid \<times> FormSubCategory) response option")
        case (Some r)
        with False show ?thesis
          using assms v c f by (simp add: createSubcategory_def findById_def)
      next
        case None
        have u: "\<And>d0. sub_name d0 = trim name \<Longrightarrow> sub_categoryId d0 = cid \<Longrightarrow>
                   \<not> unique_index_taken (formSubCategories st) newId d0"
          using no_pair_no_index_conflict [OF False] by blast
        show ?thesis
          using assms v c f None False
          by (simp add: createSubcategory_def findById_def Let_def save_subcategory_def
              subcategory_validators_def u list_all_iff)
      qed
    qed
  qed
qed

theorem createSubcategory_check_order_witness:
  "\<exists>d. createSubcategory env0 2000 new1
        \<lparr>sb_name = Some ''Permit'', sb_categoryId = Some cat1, sb_description = None,
         sb_fields = Some [\<lparr>field_name = Some ''holder'', fieldType = Some ''text'',
                            options = None, required = None\<rparr>],
         sb_isActive = None\<rparr> usr1 db_category
      = (\<lparr>status = 200, payload = Doc (new1, d)\<rparr>,
         db_category\<lparr>formSubCategories := formSubCategories db_category @ [(new1, d)]\<rparr>)
     \<and> sub_createdBy d = usr1 \<and> sub_name d = ''Permit''"
proof -
  let ?f = "\<lparr>field_name = Some ''holder'', fieldType = Some ''text'', options = None,
             required = None\<rparr>"
  let ?b = "\<lparr>sb_name = Some ''Permit'', sb_categoryId = Some cat1, sb_description = None,
         sb_fields = Some [?f], sb_isActive = None\<rparr>"
  have t: "trim ''Permit'' = ''Permit''" by (simp add: trim_def is_ws_def)
  have 1: "sb_name ?b = Some ''Permit''" by simp
  have 2: "''Permit'' \<noteq> []" by simp
  have 3: "sb_categoryId ?b = Some cat1" by simp
  have 5: "sb_fields ?b = Some [?f]" by simp
  have c: "map_of (formCategories db_category) cat1 = Some category1"
    by (simp add: db_category_def empty_db_def)
  have n: "\<not> list_ex (\<lambda>(j, d). sub_name d = trim ''Permit'' \<and> sub_categoryId d = cat1)
              (formSubCategories db_category)"
    by (simp add: db_category_def empty_db_def)
  have v: "validate_fields [?f] = (None :: (oid \<times> FormSubCategory) response option)"
    by (simp add: check_field_def truthy_def choiceTypes_def)
  have s: "trim ''Permit'' \<noteq> [] \<and> list_all (\<lambda>f. field_validators (cast_field f)) [?f]"
    by (simp add: t cast_field_def field_validators_def truthy_def fieldTypeEnum_def trim_def
        is_ws_def)
  from createSubcategory_check_order [OF 1 2 3 cast_cat1 5, where e = env0
      and st = db_category and now = 2000 and newId = new1 and actorId = usr1]
    c n v s
  have "\<exists>d. createSubcategory env0 2000 new1 ?b usr1 db_category =
            (\<lparr>status = 200, payload = Doc (new1, d)\<rparr>,
             db_category\<lparr>formSubCategories := formSubCategories db_category @ [(new1, d)]\<rparr>)
          \<and> sub_createdBy d = usr1 \<and> sub_name d = trim ''Permit''
          \<and> sub_categoryId d = cat1 \<and> sub_fields d = map cast_field [?f]"
    by simp
  then show ?thesis unfolding t by blast
qed

section \<open>Test send of a template (C9)\<close>

text \<open>
  C9 says that \<open>sendTest\<close> answers 404 whenever no template has the id. As stated this
  fails for the id \<open>abc\<close>, which no template has and which the store's cast refuses: the
  lookup throws and the answer is 500.
\<close>

theorem sendTest_malformed_id:
  "map_of (messageTemplates empty_db) ''abc'' = None
   \<and> sendTest env0 ''abc'' empty_db =
       (\<lparr>status = 500, payload = ServerFail ''Server error''\<rparr>, empty_db)"
  by (simp add: sendTest_def findById_def castObjectId_def empty_db_def)

lemma sendTest_abc: "sendTest e ''abc'' st =
    (\<lparr>status = 500, payload = ServerFail ''Server error''\<rparr>, st)"
  by (simp add: sendTest_def findById_def castObjectId_def)

text \<open>
  C9, amended: \<open>sendTest\<close> never modifies the state. When the store's cast takes the id as
  an ObjectId (as it does every string of 24 hexadecimal digits), the answer is 404 when no
  template has that id, and otherwise echoes exactly the template's subject and content.
  When the store's cast refuses the id (as it does \<open>abc\<close>), the answer is 500.
\<close>

theorem sendTest_echo_or_not_found:
  "snd (sendTest e rid st) = st
   \<and> (\<forall>i. castObjectId e rid = Some i \<longrightarrow>
        (map_of (messageTemplates st) i = None \<longrightarrow>
           sendTest e rid st =
             (\<lparr>status = 404, payload = MessageObj ''Message template not found''\<rparr>, st))
        \<and> (\<forall>t. map_of (messageTemplates st) i = Some t \<longrightarrow>
             sendTest e rid st =
               (\<lparr>status = 200, payload = Echo (mt_subject t) (mt_content t)\<rparr>, st)))
   \<and> (castObjectId e rid = None \<longrightarrow>
        sendTest e rid st = (\<lparr>status = 500, payload = ServerFail ''Server error''\<rparr>, st))"
  by (auto simp: sendTest_def findById_def split: option.splits)

theorem sendTest_echo_or_not_found_witness:
  "castObjectId env0 tpl1 = Some tpl1
   \<and> sendTest env0 tpl1 db_template =
       (\<lparr>status = 200, payload = Echo ''old'' ''c''\<rparr>, db_template)
   \<and> sendTest env0 tpl1 empty_db =
       (\<lparr>status = 404, payload = MessageObj ''Message template not found''\<rparr>, empty_db)
   \<and> castObjectId env0 ''abc'' = None
   \<and> sendTest env0 ''abc'' db_template =
       (\<lparr>status = 500, payload = ServerFail ''Server error''\<rparr>, db_template)"
proof -
  have a: "map_of (messageTemplates db_template) tpl1 = Some template1"
    by (simp add: db_template_def empty_db_def)
  have b: "map_of (messageTemplates empty_db) tpl1 = None"
    by (simp add: empty_db_def)
  have c: "castObjectId env0 tpl1 = Some tpl1" by (rule cast_tpl1)
  have d: "castObjectId env0 ''abc'' = None" by (simp add: castObjectId_def)
  from sendTest_echo_or_not_found [of env0 tpl1 db_template] c a
  have "sendTest env0 tpl1 db_template =
          (\<lparr>status = 200, payload = Echo (mt_subject template1) (mt_content template1)\<rparr>,
           db_template)"
    by blast
  moreover from sendTest_echo_or_not_found [of env0 tpl1 empty_db] c b
  have "sendTest env0 tpl1 empty_db =
          (\<lparr>status = 404, payload = MessageObj ''Message template not found''\<rparr>, empty_db)"
    by blast
  moreover from sendTest_echo_or_not_found [of env0 "''abc''" db_template] d
  have "sendTest env0 ''abc'' db_template =
          (\<lparr>status = 500, payload = ServerFail ''Server error''\<rparr>, db_template)"
    by blast
  ultimately show ?thesis using c d by (simp add: template1_def)
qed

section \<open>Stored field types (C10)\<close>

text \<open>
  C10 says that no stored subcategory ever holds a field with a type outside the
  enumeration, because the schema validates at save time. The update route does not
  save: it writes through \<open>findByIdAndUpdate\<close> without \<open>runValidators\<close>, and the validation
  loop only tests that a type is present. An update of an existing subcategory with a
  field of type \<open>foo\<close> is answered 200, and the stored subcategory then holds that field.
\<close>

theorem updateSubcategory_stores_foreign_type:
  "updateSubcategory e 2000 sub1
      \<lparr>sb_name = Some ''Renewal'', sb_categoryId = Some cat1, sb_description = None,
        sb_fields = Some [bad_field], sb_isActive = None\<rparr> usr1 db_subcategory
   = (\<lparr>status = 200,
       payload = Doc (sub1, subcategory1\<lparr>sub_fields := [cast_field bad_field],
                                         sub_updatedBy := Some usr1, sub_updatedAt := 2000\<rparr>)\<rparr>,
      db_subcategory\<lparr>formSubCategories :=
        [(sub1, subcategory1\<lparr>sub_fields := [cast_field bad_field],
                             sub_updatedBy := Some usr1, sub_updatedAt := 2000\<rparr>)]\<rparr>)
   \<and> fieldType (cast_field bad_field) = Some ''foo''
   \<and> ''foo'' \<notin> set fieldTypeEnum
   \<and> \<not> field_validators (cast_field bad_field)"
  apply (simp add: updateSubcategory_def validationResult_subcategory_def truthy_def
      findById_def cast_sub1 cast_cat1 db_subcategory_def empty_db_def example_ids)
  apply (simp add: subcategory1_def check_field_def bad_field_def truthy_def choiceTypes_def
      Let_def unique_index_taken_def replace_id_def trim_def is_ws_def cast_field_def
      field_validators_def fieldTypeEnum_def)
  done

theorem updateSubcategory_stores_foreign_type_witness:
  "status (fst (updateSubcategory env0 2000 sub1
      \<lparr>sb_name = Some ''Renewal'', sb_categoryId = Some cat1, sb_description = None,
        sb_fields = Some [bad_field], sb_isActive = None\<rparr> usr1 db_subcategory)) = 200
   \<and> map_of (formSubCategories (snd (updateSubcategory env0 2000 sub1
      \<lparr>sb_name = Some ''Renewal'', sb_categoryId = Some cat1, sb_description = None,
        sb_fields = Some [bad_field], sb_isActive = None\<rparr> usr1 db_subcategory))) sub1
     = Some (subcategory1\<lparr>sub_fields := [cast_field bad_field],
                          sub_updatedBy := Some usr1, sub_updatedAt := 2000\<rparr>)"
  using updateSubcategory_stores_foreign_type [of env0] by simp

end
